theory Spec2Isabelle
  imports Complex_Main "HOL-Library.Sublist" "HOL-Library.AList"
begin

section \<open>Values, errors and Python string operations\<close>

text \<open>
  The pipeline of \<^verbatim>\<open>etl.py\<close> is embedded as pure functions over relations. A relation is a
  list of rows; the order of the list carries no meaning (the engine gives none), and the
  list may hold a row several times, as a data frame may.

  A Python exception is the left summand of a result: \<^verbatim>\<open>str.index\<close> raises
  \<^verbatim>\<open>ValueError\<close>, \<^verbatim>\<open>timedelta\<close> and the comparison \<^verbatim>\<open>1900 <= yr\<close> raise
  \<^verbatim>\<open>TypeError\<close> on a string, date arithmetic outside the supported years raises
  \<^verbatim>\<open>OverflowError\<close>, and a list index out of range raises \<^verbatim>\<open>IndexError\<close>.
\<close>

datatype py_error = ValueError | TypeError | OverflowError | IndexError

definition bind_err :: "'e + 'a \<Rightarrow> ('a \<Rightarrow> 'e + 'b) \<Rightarrow> 'e + 'b" where
  "bind_err m f = (case m of Inl e \<Rightarrow> Inl e | Inr x \<Rightarrow> f x)"

fun map_err :: "('a \<Rightarrow> 'e + 'b) \<Rightarrow> 'a list \<Rightarrow> 'e + 'b list" where
  "map_err f [] = Inr []"
| "map_err f (x # xs) =
     (case f x of
        Inl e \<Rightarrow> Inl e
      | Inr y \<Rightarrow> (case map_err f xs of Inl e \<Rightarrow> Inl e | Inr ys \<Rightarrow> Inr (y # ys)))"

text \<open>
  A cell of the immigration relation, as the Python lambdas of the cleaner see it:
  \<^verbatim>\<open>None\<close> for SQL null, a number, or a string. The schema of that relation comes from the
  input file and not from the source, so a cell may hold any of the three. Numbers are
  integral (SAS day counts, years).
\<close>

datatype cell = Null | Num int | Str string

text \<open>
  A column of \<^verbatim>\<open>DoubleType\<close>. The pipeline carries such values and never computes with
  them; only \<^verbatim>\<open>dropna\<close> looks at them, and it treats NaN like null.
\<close>

datatype double = NaN | Inf bool | Finite rat

text \<open>
  Text is a \<^typ>\<open>string\<close>: a list of characters with code points below 256.
  \<^verbatim>\<open>s.find(sub)\<close> gives the lowest index at which \<^verbatim>\<open>sub\<close> starts, and
  \<^verbatim>\<open>s.index(sub)\<close> raises \<^verbatim>\<open>ValueError\<close> where \<^verbatim>\<open>find\<close> has no index to give.
\<close>

fun str_find :: "string \<Rightarrow> string \<Rightarrow> nat option" where
  "str_find [] sub = (if sub = [] then Some 0 else None)"
| "str_find (c # cs) sub =
     (if prefix sub (c # cs) then Some 0 else map_option Suc (str_find cs sub))"

definition str_index :: "string \<Rightarrow> string \<Rightarrow> py_error + nat" where
  "str_index s sub = (case str_find s sub of None \<Rightarrow> Inl ValueError | Some i \<Rightarrow> Inr i)"

text \<open>
  \<^verbatim>\<open>s.split(sep)\<close> for a separator of one character: the pieces between the separators,
  always at least one piece.
\<close>

fun str_split :: "char \<Rightarrow> string \<Rightarrow> string list" where
  "str_split sep [] = [[]]"
| "str_split sep (c # cs) =
     (if c = sep then [] # str_split sep cs
      else (case str_split sep cs of
              [] \<Rightarrow> [[c]]
            | p # ps \<Rightarrow> (c # p) # ps))"

text \<open>
  \<^verbatim>\<open>sep.join(parts)\<close>, the inverse of the split; it serves to say what the split
  returns.
\<close>

fun str_join :: "char \<Rightarrow> string list \<Rightarrow> string" where
  "str_join sep [] = []"
| "str_join sep [p] = p"
| "str_join sep (p # q # ps) = p @ sep # str_join sep (q # ps)"

text \<open>
  \<^verbatim>\<open>s.strip()\<close> removes leading and trailing whitespace, \<^verbatim>\<open>s.strip(chars)\<close> leading
  and trailing characters of \<^verbatim>\<open>chars\<close>. The whitespace of Python's \<^verbatim>\<open>str\<close> below code
  point 256 is 0x09 to 0x0D, 0x1C to 0x20, 0x85 and 0xA0.
\<close>

definition py_isspace :: "char \<Rightarrow> bool" where
  "py_isspace c \<longleftrightarrow>
     c \<in> {CHR 0x09, CHR 0x0A, CHR 0x0B, CHR 0x0C, CHR 0x0D, CHR 0x1C, CHR 0x1D, CHR 0x1E,
          CHR 0x1F, CHR 0x20, CHR 0x85, CHR 0xA0}"

definition strip_where :: "(char \<Rightarrow> bool) \<Rightarrow> string \<Rightarrow> string" where
  "strip_where p s = rev (dropWhile p (rev (dropWhile p s)))"

definition str_strip :: "string \<Rightarrow> string" where
  "str_strip s = strip_where py_isspace s"

definition str_strip_chars :: "string \<Rightarrow> string \<Rightarrow> string" where
  "str_strip_chars chars s = strip_where (\<lambda>c. c \<in> set chars) s"

text \<open>Indexing a Python list with a non-negative index.\<close>

definition list_get :: "'a list \<Rightarrow> nat \<Rightarrow> py_error + 'a" where
  "list_get xs i = (if i < length xs then Inr (xs ! i) else Inl IndexError)"

section \<open>The label-document parser\<close>

text \<open>
  \<^verbatim>\<open>get_data_from_sas_labels_file\<close> reads the label file and cuts the block of one label
  out of it. Reading the file is the only effect; the model takes the text read as the
  argument \<open>file_data\<close>. The loop over the lines appends a pair for every line that
  \<^verbatim>\<open>split('=')\<close> cuts into exactly two parts and goes on to the next line otherwise.
\<close>

fun collect_code_value_pairs ::
  "string list \<Rightarrow> (string \<times> string) list \<Rightarrow> (string \<times> string) list" where
  "collect_code_value_pairs [] code_value_pairs = code_value_pairs"
| "collect_code_value_pairs (line # lines) code_value_pairs =
     (let parts = str_split CHR ''='' line in
      if length parts \<noteq> 2 then collect_code_value_pairs lines code_value_pairs
      else
        (let code = str_strip_chars [CHR 0x27] (str_strip (parts ! 0));
             val = str_strip_chars [CHR 0x27] (str_strip (parts ! 1))
         in collect_code_value_pairs lines (code_value_pairs @ [(code, val)])))"

definition get_data_from_sas_labels_file ::
  "string \<Rightarrow> string \<Rightarrow> py_error + (string \<times> string) list" where
  "get_data_from_sas_labels_file file_data label_name =
     bind_err (str_index file_data label_name) (\<lambda>i.
       let label_data = drop i file_data in
       bind_err (str_index label_data [CHR '';'']) (\<lambda>j.
         let label_data = take j label_data;
             lines = str_split CHR 0x0A label_data
         in Inr (collect_code_value_pairs lines [])))"

section \<open>The relations\<close>

text \<open>
  The code books have the schemas the loaders declare, every column a nullable
  \<^verbatim>\<open>StringType\<close>. A field that several relations share carries the alias of its relation
  in the queries (\<open>sp\<close> for the ports, \<open>sud\<close> for the demographics, \<open>cd\<close> for the
  aggregated demographics), since a field name is global.
\<close>

record country_row =
  country_code :: "string option"
  country_name :: "string option"

record i94port_row =
  i94_port_code :: "string option"
  port_name :: "string option"

record port_row =
  sp_port_code :: "string option"
  sp_city :: "string option"
  sp_state_code :: "string option"

record state_row =
  state_code :: "string option"
  state_name :: "string option"

record travel_mode_row =
  mode_id :: "string option"
  mode_name :: "string option"

record visa_row =
  visa_category_id :: "string option"
  visa_category :: "string option"

text \<open>
  The immigration relation: the columns the source names. The columns it never names
  ride along in the extension of the record, so a function on
  \<open>'a immigration_row_scheme\<close> leaves them as they are and duplicate elimination
  compares them too. The five code columns are at the type of the code books, so that
  the equality of a join is SQL equality of strings (the engine's implicit casts between
  column types are outside the source).
\<close>

record immigration_row =
  cicid :: cell
  i94yr :: cell
  i94mon :: cell
  i94res :: "string option"
  i94port :: "string option"
  arrdate :: cell
  i94mode :: "string option"
  i94addr :: "string option"
  depdate :: cell
  i94bir :: cell
  i94visa :: "string option"
  occup :: cell
  gender :: cell
  biryear :: cell
  dtaddto :: cell
  airline :: cell
  admnum :: cell
  fltno :: cell
  visatype :: cell

record demographics_row =
  sud_city :: "string option"
  sud_state :: "string option"
  median_age :: "double option"
  male_population :: "int option"
  female_population :: "int option"
  total_population :: "int option"
  number_of_veterans :: "int option"
  foreign_born :: "int option"
  average_household_size :: "double option"
  sud_state_code :: "string option"
  race :: "string option"
  race_count :: "int option"

section \<open>The reference-table builder\<close>

text \<open>
  Each loader parses its block and hands the pairs to \<^verbatim>\<open>createDataFrame\<close> under a schema
  of two string columns.
\<close>

definition get_i94_countries :: "string \<Rightarrow> py_error + country_row list" where
  "get_i94_countries file_data =
     bind_err (get_data_from_sas_labels_file file_data ''I94RES'') (\<lambda>pairs.
       Inr (map (\<lambda>(c, n). \<lparr>country_code = Some c, country_name = Some n\<rparr>) pairs))"

definition get_i94_ports :: "string \<Rightarrow> py_error + i94port_row list" where
  "get_i94_ports file_data =
     bind_err (get_data_from_sas_labels_file file_data ''I94PORT'') (\<lambda>pairs.
       Inr (map (\<lambda>(c, n). \<lparr>i94_port_code = Some c, port_name = Some n\<rparr>) pairs))"

definition get_i94_states :: "string \<Rightarrow> py_error + state_row list" where
  "get_i94_states file_data =
     bind_err (get_data_from_sas_labels_file file_data ''I94ADDR'') (\<lambda>pairs.
       Inr (map (\<lambda>(c, n). \<lparr>state_code = Some c, state_name = Some n\<rparr>) pairs))"

definition get_i94_travel_modes :: "string \<Rightarrow> py_error + travel_mode_row list" where
  "get_i94_travel_modes file_data =
     bind_err (get_data_from_sas_labels_file file_data ''I94MODE'') (\<lambda>pairs.
       Inr (map (\<lambda>(c, n). \<lparr>mode_id = Some c, mode_name = Some n\<rparr>) pairs))"

definition get_i94_visas :: "string \<Rightarrow> py_error + visa_row list" where
  "get_i94_visas file_data =
     bind_err (get_data_from_sas_labels_file file_data ''I94VISA'') (\<lambda>pairs.
       Inr (map (\<lambda>(c, n). \<lparr>visa_category_id = Some c, visa_category = Some n\<rparr>) pairs))"

section \<open>Python dates\<close>

text \<open>
  The date arithmetic of Python's \<^verbatim>\<open>datetime\<close> module, which the immigration cleaner
  calls. A date is its proleptic Gregorian ordinal, day 1 being 0001-01-01 and the last
  day, 9999-12-31, being \<open>MAXORDINAL\<close>. \<open>ord2ymd\<close> is the module's conversion of an
  ordinal to year, month and day; \<open>isoformat\<close> prints \<^verbatim>\<open>%04d-%02d-%02d\<close>.
\<close>

definition MAXORDINAL :: int where
  "MAXORDINAL = 3652059"

definition is_leap :: "int \<Rightarrow> bool" where
  "is_leap y \<longleftrightarrow> y mod 4 = 0 \<and> (y mod 100 \<noteq> 0 \<or> y mod 400 = 0)"

definition days_before_year :: "int \<Rightarrow> int" where
  "days_before_year y = (let y1 = y - 1 in y1 * 365 + y1 div 4 - y1 div 100 + y1 div 400)"

definition DAYS_IN_MONTH :: "int list" where
  "DAYS_IN_MONTH = [-1, 31, 28, 31, 30, 31, 30, 31, 31, 30, 31, 30, 31]"

definition DAYS_BEFORE_MONTH :: "int list" where
  "DAYS_BEFORE_MONTH = [-1, 0, 31, 59, 90, 120, 151, 181, 212, 243, 273, 304, 334]"

definition days_before_month :: "int \<Rightarrow> int \<Rightarrow> int" where
  "days_before_month y m =
     DAYS_BEFORE_MONTH ! nat m + (if m > 2 \<and> is_leap y then 1 else 0)"

definition ymd2ord :: "int \<Rightarrow> int \<Rightarrow> int \<Rightarrow> int" where
  "ymd2ord y m d = days_before_year y + days_before_month y m + d"

definition ord2ymd :: "int \<Rightarrow> int \<times> int \<times> int" where
  "ord2ymd n0 =
     (let n = n0 - 1;
          n400 = n div 146097; n = n mod 146097;
          n100 = n div 36524; n = n mod 36524;
          n4 = n div 1461; n = n mod 1461;
          n1 = n div 365; n = n mod 365;
          y = n400 * 400 + 1 + n100 * 100 + n4 * 4 + n1
      in if n1 = 4 \<or> n100 = 4 then (y - 1, 12, 31)
         else
           (let leapyear = (n1 = 3 \<and> (n4 \<noteq> 24 \<or> n100 = 3));
                m = (n + 50) div 32;
                preceding = DAYS_BEFORE_MONTH ! nat m + (if m > 2 \<and> leapyear then 1 else 0)
            in if preceding > n
               then (let m' = m - 1;
                         preceding' = preceding -
                           (DAYS_IN_MONTH ! nat m' + (if m' = 2 \<and> leapyear then 1 else 0))
                     in (y, m', n - preceding' + 1))
               else (y, m, n - preceding + 1)))"

definition digit :: "int \<Rightarrow> char" where
  "digit k = ''0123456789'' ! nat (k mod 10)"

definition isoformat :: "int \<Rightarrow> string" where
  "isoformat ordinal =
     (case ord2ymd ordinal of (y, m, d) \<Rightarrow>
        [digit (y div 1000), digit (y div 100), digit (y div 10), digit y] @ ''-'' @
        [digit (m div 10), digit m] @ ''-'' @ [digit (d div 10), digit d])"

text \<open>
  \<^verbatim>\<open>timedelta(x)\<close> takes a number of days of magnitude at most 999999999 and raises
  \<^verbatim>\<open>TypeError\<close> on a string or \<^verbatim>\<open>None\<close>; \<^verbatim>\<open>date + timedelta\<close> adds the days to the
  ordinal and raises \<^verbatim>\<open>OverflowError\<close> when the sum leaves the supported range.
\<close>

definition timedelta :: "cell \<Rightarrow> py_error + int" where
  "timedelta x =
     (case x of
        Num days \<Rightarrow> (if \<bar>days\<bar> \<le> 999999999 then Inr days else Inl OverflowError)
      | Str s \<Rightarrow> Inl TypeError
      | Null \<Rightarrow> Inl TypeError)"

definition date_add :: "int \<Rightarrow> int \<Rightarrow> py_error + int" where
  "date_add ordinal days =
     (let o' = ordinal + days in
      if 0 < o' \<and> o' \<le> MAXORDINAL then Inr o' else Inl OverflowError)"

text \<open>Python's truth value of a cell: \<^verbatim>\<open>None\<close>, 0 and the empty string are false.\<close>

definition truthy :: "cell \<Rightarrow> bool" where
  "truthy x = (case x of Null \<Rightarrow> False | Num n \<Rightarrow> n \<noteq> 0 | Str s \<Rightarrow> s \<noteq> [])"

section \<open>SQL expressions\<close>

text \<open>
  A comparison with a null operand is null, and a \<^verbatim>\<open>WHERE\<close> or \<^verbatim>\<open>ON\<close> clause keeps a
  row only where its condition is true; \<open>None\<close> is the null truth value.
\<close>

definition sql_eq :: "'a option \<Rightarrow> 'a option \<Rightarrow> bool option" where
  "sql_eq a b = (case (a, b) of (Some x, Some y) \<Rightarrow> Some (x = y) | _ \<Rightarrow> None)"

definition sql_neq :: "'a option \<Rightarrow> 'a option \<Rightarrow> bool option" where
  "sql_neq a b = (case (a, b) of (Some x, Some y) \<Rightarrow> Some (x \<noteq> y) | _ \<Rightarrow> None)"

definition sql_and :: "bool option \<Rightarrow> bool option \<Rightarrow> bool option" where
  "sql_and a b =
     (if a = Some False \<or> b = Some False then Some False
      else if a = Some True \<and> b = Some True then Some True
      else None)"

definition is_not_null :: "'a option \<Rightarrow> bool option" where
  "is_not_null a = Some (a \<noteq> None)"

definition sql_where :: "('r \<Rightarrow> bool option) \<Rightarrow> 'r list \<Rightarrow> 'r list" where
  "sql_where cond df = filter (\<lambda>r. cond r = Some True) df"

text \<open>
  \<^verbatim>\<open>lower\<close> on the characters below code point 256: the letters A to Z, and the
  capital letters of Latin-1 from 0xC0 to 0xDE without the multiplication sign 0xD7.
\<close>

definition lower_chr :: "char \<Rightarrow> char" where
  "lower_chr c =
     (let n = (of_char c :: nat) in
      if (65 \<le> n \<and> n \<le> 90) \<or> (192 \<le> n \<and> n \<le> 222 \<and> n \<noteq> 215) then char_of (n + 32)
      else c)"

definition sql_lower :: "string option \<Rightarrow> string option" where
  "sql_lower s = map_option (map lower_chr) s"

text \<open>\<^verbatim>\<open>SUM\<close> skips nulls and is null over no value at all.\<close>

definition sql_sum :: "int option list \<Rightarrow> int option" where
  "sql_sum vs =
     (case List.map_filter (\<lambda>v. v) vs of [] \<Rightarrow> None | n # ns \<Rightarrow> Some (sum_list (n # ns)))"

text \<open>
  A left join keeps every row of the left side: with each row of the right side the
  condition accepts, or once, padded with nulls, where it accepts none.
\<close>

definition left_join ::
  "('l \<Rightarrow> 'r \<Rightarrow> bool option) \<Rightarrow> 'l list \<Rightarrow> 'r list \<Rightarrow> ('l \<times> 'r option) list" where
  "left_join cond ls rs =
     concat (map (\<lambda>l. case filter (\<lambda>r. cond l r = Some True) rs of
                         [] \<Rightarrow> [(l, None)]
                       | m # ms \<Rightarrow> map (\<lambda>r. (l, Some r)) (m # ms)) ls)"

definition inner_join ::
  "('l \<Rightarrow> 'r \<Rightarrow> bool option) \<Rightarrow> 'l list \<Rightarrow> 'r list \<Rightarrow> ('l \<times> 'r) list" where
  "inner_join cond ls rs =
     concat (map (\<lambda>l. map (\<lambda>r. (l, r)) (filter (\<lambda>r. cond l r = Some True) rs)) ls)"

text \<open>A column of the right side of a left join: null in a padded row.\<close>

definition col :: "('r \<Rightarrow> 'a option) \<Rightarrow> 'r option \<Rightarrow> 'a option" where
  "col f r = (case r of None \<Rightarrow> None | Some x \<Rightarrow> f x)"

definition dropDuplicates :: "'r list \<Rightarrow> 'r list" where
  "dropDuplicates df = remdups df"

text \<open>
  \<^verbatim>\<open>df.withColumn(name, f(column))\<close> with a Python function \<open>f\<close>: the function runs on
  every row, and one exception fails the whole relation.
\<close>

definition withColumn ::
  "('v \<Rightarrow> 'r \<Rightarrow> 'r) \<Rightarrow> ('r \<Rightarrow> py_error + 'v) \<Rightarrow> 'r list \<Rightarrow> py_error + 'r list" where
  "withColumn put expr df = map_err (\<lambda>r. bind_err (expr r) (\<lambda>v. Inr (put v r))) df"

section \<open>The cleaners\<close>

subsection \<open>Immigration\<close>

text \<open>
  The two lambdas of \<^verbatim>\<open>clean_immigration_data\<close>:
  \<^verbatim>\<open>(datetime(1960, 1, 1).date() + timedelta(x)).isoformat() if x else None\<close> and
  \<^verbatim>\<open>yr if (yr and 1900 <= yr <= 2016) else None\<close>. The cleaner puts their results into
  the three columns and then removes duplicate rows. The cell holds what the lambda
  returns; how the engine stores that value in the column is not in the source.
\<close>

definition get_isoformat_date :: "cell \<Rightarrow> py_error + cell" where
  "get_isoformat_date x =
     (if truthy x
      then bind_err (timedelta x) (\<lambda>days.
           bind_err (date_add (ymd2ord 1960 1 1) days) (\<lambda>d. Inr (Str (isoformat d))))
      else Inr Null)"

definition chained_le :: "int \<Rightarrow> cell \<Rightarrow> int \<Rightarrow> py_error + bool" where
  "chained_le lo x hi =
     (case x of
        Num n \<Rightarrow> Inr (lo \<le> n \<and> n \<le> hi)
      | Str s \<Rightarrow> Inl TypeError
      | Null \<Rightarrow> Inl TypeError)"

definition get_valid_birth_year :: "cell \<Rightarrow> py_error + cell" where
  "get_valid_birth_year yr =
     (if truthy yr
      then bind_err (chained_le 1900 yr 2016) (\<lambda>ok. Inr (if ok then yr else Null))
      else Inr Null)"

definition clean_immigration_data ::
  "'a immigration_row_scheme list \<Rightarrow> py_error + 'a immigration_row_scheme list" where
  "clean_immigration_data immigration_df =
     bind_err (withColumn (\<lambda>v r. r\<lparr>arrdate := v\<rparr>) (\<lambda>r. get_isoformat_date (arrdate r))
                 immigration_df) (\<lambda>df.
     bind_err (withColumn (\<lambda>v r. r\<lparr>depdate := v\<rparr>) (\<lambda>r. get_isoformat_date (depdate r))
                 df) (\<lambda>df.
     bind_err (withColumn (\<lambda>v r. r\<lparr>biryear := v\<rparr>) (\<lambda>r. get_valid_birth_year (biryear r))
                 df) (\<lambda>df.
     Inr (dropDuplicates df))))"

subsection \<open>Demographics\<close>

text \<open>\<^verbatim>\<open>dropna()\<close> drops a row with a null in any column or a NaN in a double column.\<close>

definition is_na :: "double option \<Rightarrow> bool" where
  "is_na v \<longleftrightarrow> v = None \<or> v = Some NaN"

definition demographics_has_na :: "demographics_row \<Rightarrow> bool" where
  "demographics_has_na r \<longleftrightarrow>
     sud_city r = None \<or> sud_state r = None \<or> is_na (median_age r) \<or>
     male_population r = None \<or> female_population r = None \<or> total_population r = None \<or>
     number_of_veterans r = None \<or> foreign_born r = None \<or>
     is_na (average_household_size r) \<or> sud_state_code r = None \<or> race r = None \<or>
     race_count r = None"

definition clean_us_demographics_data :: "demographics_row list \<Rightarrow> demographics_row list" where
  "clean_us_demographics_data us_demographics_df =
     dropDuplicates (filter (\<lambda>r. \<not> demographics_has_na r) us_demographics_df)"

subsection \<open>Ports\<close>

text \<open>
  The lambdas \<^verbatim>\<open>port_name.split(',')[0].strip() if port_name else None\<close> and
  \<^verbatim>\<open>port_name.split(',')[1].strip() if (port_name and len(port_name.split(',')) > 1)
  else None\<close>. The cleaner adds the two columns, drops \<^verbatim>\<open>port_name\<close>, drops the rows
  with a null and removes duplicates.
\<close>

definition get_city_name :: "string option \<Rightarrow> py_error + string option" where
  "get_city_name name =
     (case name of
        None \<Rightarrow> Inr None
      | Some s \<Rightarrow>
          if s \<noteq> []
          then bind_err (list_get (str_split CHR '','' s) 0) (\<lambda>p. Inr (Some (str_strip p)))
          else Inr None)"

definition get_state_code :: "string option \<Rightarrow> py_error + string option" where
  "get_state_code name =
     (case name of
        None \<Rightarrow> Inr None
      | Some s \<Rightarrow>
          if s \<noteq> [] \<and> length (str_split CHR '','' s) > 1
          then bind_err (list_get (str_split CHR '','' s) 1) (\<lambda>p. Inr (Some (str_strip p)))
          else Inr None)"

definition port_has_null :: "port_row \<Rightarrow> bool" where
  "port_has_null r \<longleftrightarrow> sp_port_code r = None \<or> sp_city r = None \<or> sp_state_code r = None"

definition clean_ports_data :: "i94port_row list \<Rightarrow> py_error + port_row list" where
  "clean_ports_data ports_df =
     bind_err (map_err (\<lambda>r.
         bind_err (get_city_name (port_name r)) (\<lambda>city.
         bind_err (get_state_code (port_name r)) (\<lambda>st.
         Inr \<lparr>sp_port_code = i94_port_code r, sp_city = city, sp_state_code = st\<rparr>)))
       ports_df) (\<lambda>df.
     Inr (dropDuplicates (filter (\<lambda>r. \<not> port_has_null r) df)))"

subsection \<open>Countries\<close>

text \<open>
  \<^verbatim>\<open>regexp_replace('country_name', '^No Country.*|INVALID.*|Collapsed.*', 'NA')\<close> puts
  \<^verbatim>\<open>NA\<close> in place of every match of the pattern, found from left to right. The anchor
  \<^verbatim>\<open>^\<close> belongs to the first alternative alone and holds only at the start of the name;
  the other two alternatives match wherever their word starts. A dot matches any
  character but a line terminator (0x0A, 0x0D and 0x85 below code point 256), so
  \<^verbatim>\<open>.*\<close> runs to the end of the line. \<open>match_here\<close> is the length of the match that
  starts at the head of the text, the alternatives tried in their order.
\<close>

definition line_terminator :: "char \<Rightarrow> bool" where
  "line_terminator c \<longleftrightarrow> c \<in> {CHR 0x0A, CHR 0x0D, CHR 0x85}"

definition match_literal_dot_star :: "string \<Rightarrow> string \<Rightarrow> nat option" where
  "match_literal_dot_star lit s =
     (if prefix lit s
      then Some (length lit + length (takeWhile (\<lambda>c. \<not> line_terminator c) (drop (length lit) s)))
      else None)"

definition match_here :: "bool \<Rightarrow> string \<Rightarrow> nat option" where
  "match_here at_start s =
     (if at_start \<and> match_literal_dot_star ''No Country'' s \<noteq> None
      then match_literal_dot_star ''No Country'' s
      else if match_literal_dot_star ''INVALID'' s \<noteq> None
      then match_literal_dot_star ''INVALID'' s
      else match_literal_dot_star ''Collapsed'' s)"

function regexp_replace_from :: "bool \<Rightarrow> string \<Rightarrow> string" where
  "regexp_replace_from at_start s =
     (case match_here at_start s of
        Some n \<Rightarrow> ''NA'' @ regexp_replace_from False (drop n s)
      | None \<Rightarrow> (case s of [] \<Rightarrow> [] | c # cs \<Rightarrow> c # regexp_replace_from False cs))"
  by pat_completeness auto
termination
proof (relation "measure (\<lambda>(b, s). length s)")
  show "wf (measure (\<lambda>(b, s). length s))" by simp
next
  fix at_start :: bool and s :: string and n :: nat
  assume "match_here at_start s = Some n"
  then have "0 < n \<and> s \<noteq> []"
    by (auto simp: match_here_def match_literal_dot_star_def split: if_splits)
  then show "((False, drop n s), (at_start, s)) \<in> measure (\<lambda>(b, s). length s)"
    by simp
next
  fix at_start :: bool and s :: string and c :: char and cs :: string
  assume "s = c # cs"
  then show "((False, cs), (at_start, s)) \<in> measure (\<lambda>(b, s). length s)"
    by simp
qed

declare regexp_replace_from.simps [simp del]

definition regexp_replace_country_name :: "string \<Rightarrow> string" where
  "regexp_replace_country_name s = regexp_replace_from True s"

definition clean_countries_data :: "country_row list \<Rightarrow> country_row list" where
  "clean_countries_data countries_df =
     map (\<lambda>r. r\<lparr>country_name := map_option regexp_replace_country_name (country_name r)\<rparr>)
       countries_df"

subsection \<open>States\<close>

definition clean_states_data :: "state_row list \<Rightarrow> state_row list" where
  "clean_states_data states_df =
     sql_where (\<lambda>r. sql_neq (state_code r) (Some ''99'')) states_df"

section \<open>The fact table\<close>

record fact_row =
  fact_cicid :: cell
  entry_year :: cell
  entry_month :: cell
  origin_country_code :: "string option"
  port_code :: "string option"
  arrival_date :: cell
  travel_mode_code :: "string option"
  us_state_code :: "string option"
  departure_date :: cell
  age :: cell
  visa_category_code :: "string option"
  occupation :: cell
  fact_gender :: cell
  birth_year :: cell
  entry_date :: cell
  fact_airline :: cell
  admission_number :: cell
  flight_number :: cell
  visa_type :: cell

text \<open>
  The query of \<^verbatim>\<open>create_immigration_fact_table\<close>: five left joins from the immigration
  relation, the \<^verbatim>\<open>WHERE\<close> clause over the five joined keys, and the selected columns.
  The temporary views only give the relations their names in the query.
\<close>

definition create_immigration_fact_table ::
  "'a immigration_row_scheme list \<Rightarrow> country_row list \<Rightarrow> state_row list \<Rightarrow> port_row list \<Rightarrow>
   visa_row list \<Rightarrow> travel_mode_row list \<Rightarrow> fact_row list" where
  "create_immigration_fact_table immigration_df countries_df us_states_df ports_df
     visa_categories_df travel_modes_df =
     (let j1 = left_join (\<lambda>sid sc. sql_eq (country_code sc) (i94res sid))
                 immigration_df countries_df;
          j2 = left_join (\<lambda>(sid, sc) sp. sql_eq (sp_port_code sp) (i94port sid))
                 j1 ports_df;
          j3 = left_join (\<lambda>((sid, sc), sp) sus. sql_eq (state_code sus) (i94addr sid))
                 j2 us_states_df;
          j4 = left_join (\<lambda>(((sid, sc), sp), sus) svc.
                   sql_eq (visa_category_id svc) (i94visa sid))
                 j3 visa_categories_df;
          j5 = left_join (\<lambda>((((sid, sc), sp), sus), svc) stm.
                   sql_eq (mode_id stm) (i94mode sid))
                 j4 travel_modes_df;
          kept = sql_where (\<lambda>(((((sid, sc), sp), sus), svc), stm).
                   sql_and (sql_and (sql_and (sql_and
                     (is_not_null (col country_code sc))
                     (is_not_null (col sp_port_code sp)))
                     (is_not_null (col state_code sus)))
                     (is_not_null (col mode_id stm)))
                     (is_not_null (col visa_category_id svc)))
                   j5
      in map (\<lambda>(((((sid, sc), sp), sus), svc), stm).
               \<lparr>fact_cicid = cicid sid,
                entry_year = i94yr sid,
                entry_month = i94mon sid,
                origin_country_code = col country_code sc,
                port_code = col sp_port_code sp,
                arrival_date = arrdate sid,
                travel_mode_code = col mode_id stm,
                us_state_code = col state_code sus,
                departure_date = depdate sid,
                age = i94bir sid,
                visa_category_code = col visa_category_id svc,
                occupation = occup sid,
                fact_gender = gender sid,
                birth_year = biryear sid,
                entry_date = dtaddto sid,
                fact_airline = airline sid,
                admission_number = admnum sid,
                flight_number = fltno sid,
                visa_type = visatype sid\<rparr>)
           kept)"

section \<open>The city-demographics dimension\<close>

record combined_demographics_row =
  cd_city :: "string option"
  cd_state_code :: "string option"
  cd_male_population :: "int option"
  cd_female_population :: "int option"
  cd_total_population :: "int option"
  cd_number_of_veterans :: "int option"
  cd_num_foreign_born :: "int option"

record city_demographics_row =
  dim_port_code :: "string option"
  dim_city :: "string option"
  dim_state_code :: "string option"
  dim_male_population :: "int option"
  dim_female_population :: "int option"
  dim_total_population :: "int option"
  dim_number_of_veterans :: "int option"
  dim_num_foreign_born :: "int option"

text \<open>
  The first query groups the demographics by city and state code (null keys form a group
  of their own) and sums five columns. The sums are integers without a bound: the engine
  adds the 32-bit columns in 64 bits, which a group below \<open>2 ^ 32\<close> rows cannot overflow.
\<close>

definition aggregate_demographics :: "demographics_row list \<Rightarrow> combined_demographics_row list" where
  "aggregate_demographics us_demographics_df =
     map (\<lambda>(c, s).
            let grp = filter (\<lambda>sud. sud_city sud = c \<and> sud_state_code sud = s) us_demographics_df
            in \<lparr>cd_city = c,
                cd_state_code = s,
                cd_male_population = sql_sum (map male_population grp),
                cd_female_population = sql_sum (map female_population grp),
                cd_total_population = sql_sum (map total_population grp),
                cd_number_of_veterans = sql_sum (map number_of_veterans grp),
                cd_num_foreign_born = sql_sum (map foreign_born grp)\<rparr>)
       (remdups (map (\<lambda>sud. (sud_city sud, sud_state_code sud)) us_demographics_df))"

text \<open>The second query joins the ports to the aggregated relation and selects
  \<^verbatim>\<open>sp.port_code, cd.*\<close>.\<close>

definition create_city_demographics_dim_table ::
  "demographics_row list \<Rightarrow> port_row list \<Rightarrow> city_demographics_row list" where
  "create_city_demographics_dim_table us_demographics_df ports_df =
     (let aggregated_df = aggregate_demographics us_demographics_df
      in map (\<lambda>(sp, cd).
               \<lparr>dim_port_code = sp_port_code sp,
                dim_city = cd_city cd,
                dim_state_code = cd_state_code cd,
                dim_male_population = cd_male_population cd,
                dim_female_population = cd_female_population cd,
                dim_total_population = cd_total_population cd,
                dim_number_of_veterans = cd_number_of_veterans cd,
                dim_num_foreign_born = cd_num_foreign_born cd\<rparr>)
           (inner_join (\<lambda>sp cd.
                sql_and (sql_eq (sql_lower (cd_city cd)) (sql_lower (sp_city sp)))
                        (sql_eq (cd_state_code cd) (sp_state_code sp)))
              ports_df aggregated_df))"

section \<open>The driver\<close>

text \<open>
  \<^verbatim>\<open>main\<close> loads, cleans, builds the two tables, runs the data quality checks and writes
  seven relations. Its inputs are what the loaders read: the text of the label file, the
  immigration relation and the demographics relation; the output directory comes from the
  configuration. The files written are an association list from path to relation, and
  a write in mode \<^verbatim>\<open>overwrite\<close> replaces what the path held. The partitioning of a
  written relation is layout and is left out. The engine computes a relation only when
  an action asks for it, so an exception of a cleaner's lambda surfaces at the first
  count of the quality checks; that is before the first write, where the model, which
  cleans at once, has it too.

  Each data quality check is \<^verbatim>\<open>if t.count() == 0: Exception("...")\<close>: the body is an
  expression statement. It builds an exception object and drops it; there is no
  \<^verbatim>\<open>raise\<close>.
\<close>

datatype py_exception = Exception string

definition expression_statement :: "'a \<Rightarrow> py_error + unit" where
  "expression_statement v = Inr ()"

datatype table =
    FactTable "fact_row list"
  | CityDemographics "city_demographics_row list"
  | Countries "country_row list"
  | States "state_row list"
  | Ports "port_row list"
  | TravelModes "travel_mode_row list"
  | VisaCategories "visa_row list"

type_synonym files = "(string \<times> table) list"

definition write_parquet :: "string \<Rightarrow> table \<Rightarrow> files \<Rightarrow> files" where
  "write_parquet path t fs = AList.update path t fs"

definition main ::
  "string \<Rightarrow> 'a immigration_row_scheme list \<Rightarrow> demographics_row list \<Rightarrow> string \<Rightarrow> files \<Rightarrow>
   py_error + files" where
  "main file_data immigration_df us_demographics_df OUTPUT_DATA_DIR fs =
     bind_err (get_i94_countries file_data) (\<lambda>countries_df.
     bind_err (get_i94_ports file_data) (\<lambda>ports_df.
     bind_err (get_i94_states file_data) (\<lambda>states_df.
     bind_err (get_i94_travel_modes file_data) (\<lambda>travel_modes_df.
     bind_err (get_i94_visas file_data) (\<lambda>visa_categories_df.
     bind_err (clean_immigration_data immigration_df) (\<lambda>cleaned_immigration_df.
     let cleaned_us_demographics_df = clean_us_demographics_data us_demographics_df in
     bind_err (clean_ports_data ports_df) (\<lambda>cleaned_ports_df.
     let cleaned_countries_df = clean_countries_data countries_df;
         cleaned_states_df = clean_states_data states_df;
         immigration_fact_table =
           create_immigration_fact_table cleaned_immigration_df cleaned_countries_df
             cleaned_states_df cleaned_ports_df visa_categories_df travel_modes_df;
         city_demographics_table =
           create_city_demographics_dim_table cleaned_us_demographics_df cleaned_ports_df
     in
     bind_err (if length immigration_fact_table = 0
               then expression_statement
                      (Exception ''Invalid dataset. Immigrations fact table is empty.'')
               else Inr ()) (\<lambda>_.
     bind_err (if length city_demographics_table = 0
               then expression_statement
                      (Exception ''Invalid dataset. City demographics dim table is empty.'')
               else Inr ()) (\<lambda>_.
     bind_err (if length cleaned_ports_df = 0
               then expression_statement (Exception ''Invalid dataset. Port dim table is empty.'')
               else Inr ()) (\<lambda>_.
     bind_err (if length cleaned_countries_df = 0
               then expression_statement
                      (Exception ''Invalid dataset. Country dim table is empty.'')
               else Inr ()) (\<lambda>_.
     bind_err (if length cleaned_states_df = 0
               then expression_statement
                      (Exception ''Invalid dataset. US State dim table is empty.'')
               else Inr ()) (\<lambda>_.
     bind_err (if length visa_categories_df = 0
               then expression_statement
                      (Exception ''Invalid dataset. Visa Category dim table is empty.'')
               else Inr ()) (\<lambda>_.
     bind_err (if length travel_modes_df = 0
               then expression_statement
                      (Exception ''Invalid dataset. Travel mode dim table is empty.'')
               else Inr ()) (\<lambda>_.
     let fs = write_parquet (OUTPUT_DATA_DIR @ ''fact_immigrations.parquet'')
                (FactTable immigration_fact_table) fs;
         fs = write_parquet (OUTPUT_DATA_DIR @ ''dim_city_demographics.parquet'')
                (CityDemographics city_demographics_table) fs;
         fs = write_parquet (OUTPUT_DATA_DIR @ ''dim_country.parquet'')
                (Countries cleaned_countries_df) fs;
         fs = write_parquet (OUTPUT_DATA_DIR @ ''dim_us_state.parquet'')
                (States cleaned_states_df) fs;
         fs = write_parquet (OUTPUT_DATA_DIR @ ''dim_ports.parquet'')
                (Ports cleaned_ports_df) fs;
         fs = write_parquet (OUTPUT_DATA_DIR @ ''dim_travel_mode.parquet'')
                (TravelModes travel_modes_df) fs;
         fs = write_parquet (OUTPUT_DATA_DIR @ ''dim_visa_category.parquet'')
                (VisaCategories visa_categories_df) fs
     in Inr fs))))))))))))))"

section \<open>Sample inputs\<close>

text \<open>
  A small label document with one entry in each of the five blocks, written as the real
  file writes them (a quoted code or a bare number, \<^verbatim>\<open>=\<close>, a quoted name, one entry a
  line, the block closed by a semicolon).
\<close>

definition sample_label_document :: string where
  "sample_label_document =
     ''I94RES'' @ [CHR 0x0A] @ '' 582 =  '' @ [CHR 0x27] @ ''MEXICO'' @ [CHR 0x27, CHR 0x0A] @ '';'' @
     ''I94PORT'' @ [CHR 0x0A, CHR 0x27] @ ''ATL'' @ [CHR 0x27] @ '' = '' @ [CHR 0x27] @
       ''ATLANTA, GA  '' @ [CHR 0x27, CHR 0x0A] @ '';'' @
     ''I94ADDR'' @ [CHR 0x0A, CHR 0x27] @ ''GA'' @ [CHR 0x27] @ ''='' @ [CHR 0x27] @
       ''GEORGIA'' @ [CHR 0x27, CHR 0x0A] @ '';'' @
     ''I94MODE'' @ [CHR 0x0A] @ ''1 = '' @ [CHR 0x27] @ ''Air'' @ [CHR 0x27, CHR 0x0A] @ '';'' @
     ''I94VISA'' @ [CHR 0x0A] @ ''1 = Business'' @ [CHR 0x0A] @ '';''"

text \<open>One immigration record, with the day counts and codes of an arrival in April 2016.\<close>

definition sample_immigration_row :: immigration_row where
  "sample_immigration_row =
     \<lparr>cicid = Num 5748517, i94yr = Num 2016, i94mon = Num 4, i94res = Some ''582'',
      i94port = Some ''ATL'', arrdate = Num 20573, i94mode = Some ''1'', i94addr = Some ''GA'',
      depdate = Num 20582, i94bir = Num 37, i94visa = Some ''1'', occup = Null,
      gender = Str ''M'', biryear = Num 1979, dtaddto = Str ''10292016'', airline = Str ''DL'',
      admnum = Num 94361995930, fltno = Str ''00011'', visatype = Str ''B1''\<rparr>"

text \<open>
  The cleaned code books of the sample label document, and the fact row of the sample
  record.
\<close>

definition sample_countries :: "country_row list" where
  "sample_countries = [\<lparr>country_code = Some ''582'', country_name = Some ''MEXICO''\<rparr>]"

definition sample_states :: "state_row list" where
  "sample_states = [\<lparr>state_code = Some ''GA'', state_name = Some ''GEORGIA''\<rparr>]"

definition sample_ports :: "port_row list" where
  "sample_ports =
     [\<lparr>sp_port_code = Some ''ATL'', sp_city = Some ''ATLANTA'', sp_state_code = Some ''GA''\<rparr>]"

definition sample_visas :: "visa_row list" where
  "sample_visas = [\<lparr>visa_category_id = Some ''1'', visa_category = Some ''Business''\<rparr>]"

definition sample_travel_modes :: "travel_mode_row list" where
  "sample_travel_modes = [\<lparr>mode_id = Some ''1'', mode_name = Some ''Air''\<rparr>]"

definition sample_fact_row :: fact_row where
  "sample_fact_row =
     \<lparr>fact_cicid = Num 5748517, entry_year = Num 2016, entry_month = Num 4,
      origin_country_code = Some ''582'', port_code = Some ''ATL'', arrival_date = Num 20573,
      travel_mode_code = Some ''1'', us_state_code = Some ''GA'', departure_date = Num 20582,
      age = Num 37, visa_category_code = Some ''1'', occupation = Null,
      fact_gender = Str ''M'', birth_year = Num 1979, entry_date = Str ''10292016'',
      fact_airline = Str ''DL'', admission_number = Num 94361995930,
      flight_number = Str ''00011'', visa_type = Str ''B1''\<rparr>"



section \<open>The quality gate\<close>

text \<open>
  C1. The claim: a run in which one of the seven output relations is empty aborts with a
  fatal error before anything is written. The source does not do that. On the sample
  label document with an empty immigration relation and an empty demographics relation
  the fact table and the city-demographics table are empty, both checks build their
  exception object and drop it, and the run ends normally having written all seven
  relations, two of them empty.
\<close>

theorem main_writes_empty_relations:
  "main sample_label_document ([] :: immigration_row list) [] ''out/'' [] =
     Inr [(''out/fact_immigrations.parquet'', FactTable []),
          (''out/dim_city_demographics.parquet'', CityDemographics []),
          (''out/dim_country.parquet'',
           Countries [\<lparr>country_code = Some ''582'', country_name = Some ''MEXICO''\<rparr>]),
          (''out/dim_us_state.parquet'',
           States [\<lparr>state_code = Some ''GA'', state_name = Some ''GEORGIA''\<rparr>]),
          (''out/dim_ports.parquet'',
           Ports [\<lparr>sp_port_code = Some ''ATL'', sp_city = Some ''ATLANTA'',
                   sp_state_code = Some ''GA''\<rparr>]),
          (''out/dim_travel_mode.parquet'',
           TravelModes [\<lparr>mode_id = Some ''1'', mode_name = Some ''Air''\<rparr>]),
          (''out/dim_visa_category.parquet'',
           VisaCategories [\<lparr>visa_category_id = Some ''1'',
                            visa_category = Some ''Business''\<rparr>])]"
  by code_simp

section \<open>The states cleaner\<close>

text \<open>
  C10. The cleaned state relation has no row with a null state code. The filter
  \<^verbatim>\<open>state_code != "99"\<close> is null, not true, on a null state code, so it drops such a row
  along with the rows of the sentinel \<^verbatim>\<open>99\<close>.
\<close>

theorem clean_states_data_no_null_state_code:
  "sql_neq (None :: string option) (Some ''99'') = None \<and>
   (\<forall>r \<in> set (clean_states_data states_df).
      state_code r \<noteq> None \<and> state_code r \<noteq> Some ''99'')"
  by (auto simp: clean_states_data_def sql_where_def sql_neq_def split: option.splits)

theorem clean_states_data_no_null_state_code_witness:
  "clean_states_data
     [\<lparr>state_code = Some ''99'', state_name = Some ''All Other Codes''\<rparr>,
      \<lparr>state_code = None, state_name = Some ''UNKNOWN''\<rparr>,
      \<lparr>state_code = Some ''GA'', state_name = Some ''GEORGIA''\<rparr>] =
     [\<lparr>state_code = Some ''GA'', state_name = Some ''GEORGIA''\<rparr>] \<and>
   state_code \<lparr>state_code = Some ''GA'', state_name = Some ''GEORGIA''\<rparr> \<noteq> None"
proof -
  let ?df = "[\<lparr>state_code = Some ''99'', state_name = Some ''All Other Codes''\<rparr>,
      \<lparr>state_code = None, state_name = Some ''UNKNOWN''\<rparr>,
      \<lparr>state_code = Some ''GA'', state_name = Some ''GEORGIA''\<rparr>]"
  let ?ga = "\<lparr>state_code = Some ''GA'', state_name = Some ''GEORGIA''\<rparr>"
  have eq: "clean_states_data ?df = [?ga]"
    by (simp add: clean_states_data_def sql_where_def sql_neq_def)
  then have "?ga \<in> set (clean_states_data ?df)"
    by simp
  with clean_states_data_no_null_state_code [of ?df] have "state_code ?ga \<noteq> None"
    by blast
  with eq show ?thesis
    by blast
qed

section \<open>The label-document parser: the block and its entries\<close>

subsection \<open>Searching, splitting and stripping\<close>



lemma prefix_at_occurrence: "prefix sub (drop (length pre) (pre @ sub @ post))"
  by simp








lemma str_split_not_Nil: "str_split sep s \<noteq> []"
  by (induction s) (auto split: list.splits)

lemma str_split_parts: "p \<in> set (str_split sep s) \<Longrightarrow> sep \<notin> set p"
  by (induction s arbitrary: p) (auto split: list.splits if_splits)

lemma str_split_length: "length (str_split sep s) = Suc (count_list s sep)"
  by (induction s) (auto split: list.splits)

lemma str_join_Cons_Cons: "str_join sep ((a # p) # ps) = a # str_join sep (p # ps)"
  by (cases ps) simp_all

lemma str_join_split: "str_join sep (str_split sep s) = s"
proof (induction s)
  case Nil
  show ?case by simp
next
  case (Cons c cs)
  obtain p ps where ps: "str_split sep cs = p # ps"
    using str_split_not_Nil [of sep cs] by (cases "str_split sep cs") auto
  with Cons show ?case
    by (auto simp: str_join_Cons_Cons)
qed

lemma strip_where_decompose:
  "\<exists>a b. s = a @ strip_where p s @ b \<and> (\<forall>x \<in> set a. p x) \<and> (\<forall>x \<in> set b. p x)"
proof -
  let ?t = "dropWhile p s"
  have 1: "s = takeWhile p s @ ?t" by simp
  have 2: "rev ?t = takeWhile p (rev ?t) @ dropWhile p (rev ?t)" by simp
  then have "?t = rev (dropWhile p (rev ?t)) @ rev (takeWhile p (rev ?t))"
    by (metis rev_append rev_rev_ident)
  then have "s = takeWhile p s @ strip_where p s @ rev (takeWhile p (rev ?t))"
    unfolding strip_where_def using 1 by (metis)
  moreover have "\<forall>x \<in> set (takeWhile p s). p x" by (auto dest: set_takeWhileD)
  moreover have "\<forall>x \<in> set (rev (takeWhile p (rev ?t))). p x" by (auto dest: set_takeWhileD)
  ultimately show ?thesis by blast
qed

lemma strip_where_ends:
  "strip_where p s \<noteq> [] \<Longrightarrow> \<not> p (hd (strip_where p s)) \<and> \<not> p (last (strip_where p s))"
proof -
  assume ne: "strip_where p s \<noteq> []"
  let ?t = "dropWhile p s"
  let ?u = "dropWhile p (rev ?t)"
  from ne have u: "?u \<noteq> []" by (simp add: strip_where_def)
  have t: "?t \<noteq> []"
    using u by (metis dropWhile.simps(1) rev.simps(1))
  have "rev ?t = takeWhile p (rev ?t) @ ?u" by simp
  with u have "last (rev ?t) = last ?u" by (metis last_appendR)
  with t have "last ?u = hd ?t" by (simp add: last_rev)
  moreover have "\<not> p (hd ?t)" using t by (rule hd_dropWhile)
  moreover have "\<not> p (hd ?u)" using u by (rule hd_dropWhile)
  ultimately show ?thesis
    using u by (simp add: strip_where_def hd_rev last_rev)
qed


subsection \<open>The parser\<close>




section \<open>The immigration cleaner\<close>

subsection \<open>Results, rows and cells\<close>




lemma map_err_total: "\<forall>x \<in> set xs. \<exists>y. f x = Inr y \<Longrightarrow> \<exists>ys. map_err f xs = Inr ys"
proof (induction xs)
  case Nil
  show ?case by simp
next
  case (Cons x xs)
  then obtain y ys where "f x = Inr y" "map_err f xs = Inr ys" by auto
  then show ?case by simp
qed




lemma bind_err_Inl [simp]: "bind_err (Inl e) f = Inl e"
  by (simp add: bind_err_def)

lemma bind_err_Inr [simp]: "bind_err (Inr x) f = f x"
  by (simp add: bind_err_def)


lemma isoformat_epoch: "isoformat (ymd2ord 1960 1 1) = ''1960-01-01''"
  by code_simp

lemma isoformat_calendar:
  "isoformat (ymd2ord 1960 1 1 - 1) = ''1959-12-31''"
  "isoformat (ymd2ord 1960 1 1 + 59) = ''1960-02-29''"
  "isoformat (ymd2ord 1960 1 1 + 60) = ''1960-03-01''"
  "isoformat (ymd2ord 1960 1 1 + 366) = ''1961-01-01''"
  "isoformat (ymd2ord 1960 1 1 + 14670) = ''2000-03-01''"
  "isoformat (ymd2ord 1960 1 1 - 21855) = ''1900-03-01''"
  by code_simp+














subsection \<open>Dates\<close>




subsection \<open>Birth years\<close>



subsection \<open>Cleaning twice\<close>




section \<open>The ports cleaner\<close>

lemma str_split_unfold:
  "str_split sep s =
     takeWhile (\<lambda>c. c \<noteq> sep) s #
       (if sep \<in> set s then str_split sep (tl (dropWhile (\<lambda>c. c \<noteq> sep) s)) else [])"
proof (induction s)
  case Nil
  show ?case by simp
next
  case (Cons c cs)
  show ?case
  proof (cases "c = sep")
    case True
    then show ?thesis by simp
  next
    case False
    then have "str_split sep (c # cs) =
        (case str_split sep cs of [] \<Rightarrow> [[c]] | p # ps \<Rightarrow> (c # p) # ps)"
      by simp
    also have "\<dots> = (c # takeWhile (\<lambda>c. c \<noteq> sep) cs) #
        (if sep \<in> set cs then str_split sep (tl (dropWhile (\<lambda>c. c \<noteq> sep) cs)) else [])"
      by (subst Cons.IH) simp
    finally show ?thesis
      using False by simp
  qed
qed

lemma str_split_first: "list_get (str_split sep s) 0 = Inr (takeWhile (\<lambda>c. c \<noteq> sep) s)"
  by (subst str_split_unfold) (simp add: list_get_def)

lemma str_split_length_gt_1: "Suc 0 < length (str_split sep s) \<longleftrightarrow> sep \<in> set s"
  by (subst str_split_unfold) (simp add: str_split_not_Nil)

lemma str_split_second:
  assumes "sep \<in> set s"
  shows "list_get (str_split sep s) (Suc 0) =
       Inr (takeWhile (\<lambda>c. c \<noteq> sep) (tl (dropWhile (\<lambda>c. c \<noteq> sep) s)))"
proof -
  let ?t = "tl (dropWhile (\<lambda>c. c \<noteq> sep) s)"
  have "str_split sep s = takeWhile (\<lambda>c. c \<noteq> sep) s # str_split sep ?t"
    using assms by (subst str_split_unfold) simp
  moreover have "str_split sep ?t = takeWhile (\<lambda>c. c \<noteq> sep) ?t #
      (if sep \<in> set ?t then str_split sep (tl (dropWhile (\<lambda>c. c \<noteq> sep) ?t)) else [])"
    by (rule str_split_unfold)
  ultimately show ?thesis
    by (simp add: list_get_def)
qed

lemma get_city_name_eq:
  "get_city_name name =
     Inr (case name of
            None \<Rightarrow> None
          | Some s \<Rightarrow> if s = [] then None
                      else Some (str_strip (takeWhile (\<lambda>c. c \<noteq> CHR '','') s)))"
  by (simp add: get_city_name_def str_split_first split: option.splits)

lemma get_state_code_eq:
  "get_state_code name =
     Inr (case name of
            None \<Rightarrow> None
          | Some s \<Rightarrow>
              if CHR '','' \<in> set s
              then Some (str_strip (takeWhile (\<lambda>c. c \<noteq> CHR '','')
                           (tl (dropWhile (\<lambda>c. c \<noteq> CHR '','') s))))
              else None)"
  by (auto simp: get_state_code_def str_split_length_gt_1 str_split_second split: option.splits)

lemma map_err_Inr_map: "map_err (\<lambda>x. Inr (g x)) xs = Inr (map g xs)"
  by (induction xs) simp_all

lemma filter_map_map_filter:
  assumes "\<And>x. P (g x) \<longleftrightarrow> h x = Some (g x)" and "\<And>x. \<not> P (g x) \<longleftrightarrow> h x = None"
  shows "filter P (map g xs) = List.map_filter h xs"
  using assms by (induction xs) (auto simp: List.map_filter_simps)

text \<open>
  C7. The claim: the city is the text before the first comma of the display name,
  trimmed, and the state code is the text after the first comma, trimmed; a row whose
  name has no comma is discarded. As amended: the state code is the text between the
  first comma and the second comma, or the end of the name where there is no second
  comma, trimmed. The rest stands: the cleaner returns, without the display name, one
  row for every input row with a port code and a name that has a comma, the city being
  the trimmed text before the first comma, and removes duplicates; a row with a null
  code, a null name or a name without a comma is dropped. The cleaner never fails.
\<close>

theorem clean_ports_data_rows:
  "clean_ports_data ports_df =
     Inr (dropDuplicates (List.map_filter (\<lambda>r.
            case (i94_port_code r, port_name r) of
              (Some code, Some name) \<Rightarrow>
                if CHR '','' \<in> set name
                then Some \<lparr>sp_port_code = Some code,
                           sp_city = Some (str_strip (takeWhile (\<lambda>c. c \<noteq> CHR '','') name)),
                           sp_state_code = Some (str_strip (takeWhile (\<lambda>c. c \<noteq> CHR '','')
                             (tl (dropWhile (\<lambda>c. c \<noteq> CHR '','') name))))\<rparr>
                else None
            | _ \<Rightarrow> None) ports_df))"
proof -
  let ?g = "\<lambda>r. \<lparr>sp_port_code = i94_port_code r,
      sp_city = (case port_name r of
            None \<Rightarrow> None
          | Some s \<Rightarrow> if s = [] then None
                      else Some (str_strip (takeWhile (\<lambda>c. c \<noteq> CHR '','') s))),
      sp_state_code = (case port_name r of
            None \<Rightarrow> None
          | Some s \<Rightarrow>
              if CHR '','' \<in> set s
              then Some (str_strip (takeWhile (\<lambda>c. c \<noteq> CHR '','')
                           (tl (dropWhile (\<lambda>c. c \<noteq> CHR '','') s))))
              else None)\<rparr>"
  have "clean_ports_data ports_df =
      Inr (dropDuplicates (filter (\<lambda>r. \<not> port_has_null r) (map ?g ports_df)))"
    by (simp add: clean_ports_data_def get_city_name_eq get_state_code_eq map_err_Inr_map)
  also have "filter (\<lambda>r. \<not> port_has_null r) (map ?g ports_df) =
      List.map_filter (\<lambda>r.
            case (i94_port_code r, port_name r) of
              (Some code, Some name) \<Rightarrow>
                if CHR '','' \<in> set name
                then Some \<lparr>sp_port_code = Some code,
                           sp_city = Some (str_strip (takeWhile (\<lambda>c. c \<noteq> CHR '','') name)),
                           sp_state_code = Some (str_strip (takeWhile (\<lambda>c. c \<noteq> CHR '','')
                             (tl (dropWhile (\<lambda>c. c \<noteq> CHR '','') name))))\<rparr>
                else None
            | _ \<Rightarrow> None) ports_df"
    by (rule filter_map_map_filter) (auto simp: port_has_null_def split: option.splits)
  finally show ?thesis .
qed

theorem clean_ports_data_rows_witness:
  "clean_ports_data
     [\<lparr>i94_port_code = Some ''ATL'', port_name = Some ''ATLANTA, GA  ''\<rparr>,
      \<lparr>i94_port_code = Some ''XXX'', port_name = Some ''NOT REPORTED/UNKNOWN''\<rparr>,
      \<lparr>i94_port_code = Some ''ATL'', port_name = Some ''ATLANTA ,GA''\<rparr>] =
     Inr [\<lparr>sp_port_code = Some ''ATL'', sp_city = Some ''ATLANTA'', sp_state_code = Some ''GA''\<rparr>]"
  by (simp add: clean_ports_data_rows List.map_filter_simps dropDuplicates_def str_strip_def
      strip_where_def py_isspace_def)

text \<open>
  The name \<^verbatim>\<open>A, B, C\<close> has two commas. The text after its first comma, trimmed, is
  \<^verbatim>\<open>B, C\<close>; the state code of the cleaned row is \<^verbatim>\<open>B\<close>, the second piece of the
  split.
\<close>

theorem clean_ports_data_second_comma:
  "clean_ports_data [\<lparr>i94_port_code = Some ''X'', port_name = Some ''A, B, C''\<rparr>] =
     Inr [\<lparr>sp_port_code = Some ''X'', sp_city = Some ''A'', sp_state_code = Some ''B''\<rparr>] \<and>
   str_strip (tl (dropWhile (\<lambda>c. c \<noteq> CHR '','') ''A, B, C'')) = ''B, C''"
  by code_simp

section \<open>The countries cleaner\<close>

















section \<open>The fact table: referential integrity\<close>

lemma sql_eq_True_iff: "sql_eq a b = Some True \<longleftrightarrow> a \<noteq> None \<and> a = b"
  by (auto simp: sql_eq_def split: option.splits)

lemma sql_and_True_iff: "sql_and a b = Some True \<longleftrightarrow> a = Some True \<and> b = Some True"
  by (auto simp: sql_and_def)

lemma is_not_null_True_iff: "is_not_null a = Some True \<longleftrightarrow> a \<noteq> None"
  by (simp add: is_not_null_def)

lemma left_join_Nil: "left_join cond [] rs = []"
  by (simp add: left_join_def)

lemma left_join_append:
  "left_join cond (xs @ ys) rs = left_join cond xs rs @ left_join cond ys rs"
  by (simp add: left_join_def)

lemma left_join_memD:
  assumes "(l, ro) \<in> set (left_join cond ls rs)"
  shows "l \<in> set ls \<and> (\<forall>r. ro = Some r \<longrightarrow> r \<in> set rs \<and> cond l r = Some True)"
proof -
  from assms obtain l' where l': "l' \<in> set ls"
    and m: "(l, ro) \<in> set (case filter (\<lambda>r. cond l' r = Some True) rs of
                         [] \<Rightarrow> [(l', None)]
                       | m # ms \<Rightarrow> map (\<lambda>r. (l', Some r)) (m # ms))"
    by (auto simp: left_join_def)
  show ?thesis
  proof (cases "filter (\<lambda>r. cond l' r = Some True) rs")
    case Nil
    with m l' show ?thesis by simp
  next
    case (Cons a as)
    with m have "l = l'" and "\<forall>r. ro = Some r \<longrightarrow> r \<in> set (filter (\<lambda>r. cond l' r = Some True) rs)"
      by auto
    with l' show ?thesis by simp
  qed
qed

lemma create_immigration_fact_table_append:
  "create_immigration_fact_table (xs @ ys) countries_df us_states_df ports_df
     visa_categories_df travel_modes_df =
   create_immigration_fact_table xs countries_df us_states_df ports_df
     visa_categories_df travel_modes_df @
   create_immigration_fact_table ys countries_df us_states_df ports_df
     visa_categories_df travel_modes_df"
  by (simp add: create_immigration_fact_table_def left_join_append sql_where_def)

lemma create_immigration_fact_table_Nil:
  "create_immigration_fact_table [] countries_df us_states_df ports_df
     visa_categories_df travel_modes_df = []"
  by (simp add: create_immigration_fact_table_def left_join_Nil sql_where_def)

lemma create_immigration_fact_table_concat:
  "create_immigration_fact_table immigration_df countries_df us_states_df ports_df
     visa_categories_df travel_modes_df =
   concat (map (\<lambda>sid. create_immigration_fact_table [sid] countries_df us_states_df ports_df
     visa_categories_df travel_modes_df) immigration_df)"
proof (induction immigration_df)
  case Nil
  show ?case by (simp add: create_immigration_fact_table_Nil)
next
  case (Cons sid df)
  have "create_immigration_fact_table (sid # df) countries_df us_states_df ports_df
     visa_categories_df travel_modes_df =
     create_immigration_fact_table ([sid] @ df) countries_df us_states_df ports_df
     visa_categories_df travel_modes_df"
    by simp
  also note create_immigration_fact_table_append
  finally show ?case
    using Cons.IH by simp
qed

lemma fact_row_source:
  assumes "row \<in> set (create_immigration_fact_table immigration_df countries_df us_states_df
     ports_df visa_categories_df travel_modes_df)"
  shows "\<exists>sid \<in> set immigration_df. \<exists>sc \<in> set countries_df. \<exists>sp \<in> set ports_df.
     \<exists>sus \<in> set us_states_df. \<exists>svc \<in> set visa_categories_df. \<exists>stm \<in> set travel_modes_df.
       sql_eq (country_code sc) (i94res sid) = Some True \<and>
       sql_eq (sp_port_code sp) (i94port sid) = Some True \<and>
       sql_eq (state_code sus) (i94addr sid) = Some True \<and>
       sql_eq (visa_category_id svc) (i94visa sid) = Some True \<and>
       sql_eq (mode_id stm) (i94mode sid) = Some True \<and>
       origin_country_code row = country_code sc \<and>
       port_code row = sp_port_code sp \<and>
       us_state_code row = state_code sus \<and>
       visa_category_code row = visa_category_id svc \<and>
       travel_mode_code row = mode_id stm \<and>
       fact_cicid row = cicid sid"
proof -
  let ?j1 = "left_join (\<lambda>sid sc. sql_eq (country_code sc) (i94res sid))
                 immigration_df countries_df"
  let ?j2 = "left_join (\<lambda>(sid, sc) sp. sql_eq (sp_port_code sp) (i94port sid))
                 ?j1 ports_df"
  let ?j3 = "left_join (\<lambda>((sid, sc), sp) sus. sql_eq (state_code sus) (i94addr sid))
                 ?j2 us_states_df"
  let ?j4 = "left_join (\<lambda>(((sid, sc), sp), sus) svc.
                   sql_eq (visa_category_id svc) (i94visa sid))
                 ?j3 visa_categories_df"
  let ?j5 = "left_join (\<lambda>((((sid, sc), sp), sus), svc) stm.
                   sql_eq (mode_id stm) (i94mode sid))
                 ?j4 travel_modes_df"
  from assms obtain sid sc sp sus svc stm where
    j5: "(((((sid, sc), sp), sus), svc), stm) \<in> set ?j5"
    and nn: "col country_code sc \<noteq> None" "col sp_port_code sp \<noteq> None"
      "col state_code sus \<noteq> None" "col mode_id stm \<noteq> None" "col visa_category_id svc \<noteq> None"
    and row: "origin_country_code row = col country_code sc"
      "port_code row = col sp_port_code sp" "us_state_code row = col state_code sus"
      "visa_category_code row = col visa_category_id svc"
      "travel_mode_code row = col mode_id stm" "fact_cicid row = cicid sid"
    by (auto simp: create_immigration_fact_table_def Let_def sql_where_def sql_and_True_iff
        is_not_null_True_iff)
  from nn obtain sc' sp' sus' svc' stm' where
    some: "sc = Some sc'" "sp = Some sp'" "sus = Some sus'" "svc = Some svc'" "stm = Some stm'"
    by (auto simp: col_def split: option.splits)
  from left_join_memD [OF j5] some have
    j4: "((((sid, sc), sp), sus), svc) \<in> set ?j4"
    and stm: "stm' \<in> set travel_modes_df" "sql_eq (mode_id stm') (i94mode sid) = Some True"
    by auto
  from left_join_memD [OF j4] some have
    j3: "(((sid, sc), sp), sus) \<in> set ?j3"
    and svc: "svc' \<in> set visa_categories_df"
      "sql_eq (visa_category_id svc') (i94visa sid) = Some True"
    by auto
  from left_join_memD [OF j3] some have
    j2: "((sid, sc), sp) \<in> set ?j2"
    and sus: "sus' \<in> set us_states_df" "sql_eq (state_code sus') (i94addr sid) = Some True"
    by auto
  from left_join_memD [OF j2] some have
    j1: "(sid, sc) \<in> set ?j1"
    and sp: "sp' \<in> set ports_df" "sql_eq (sp_port_code sp') (i94port sid) = Some True"
    by auto
  from left_join_memD [OF j1] some have
    sid: "sid \<in> set immigration_df"
    and sc: "sc' \<in> set countries_df" "sql_eq (country_code sc') (i94res sid) = Some True"
    by auto
  from row some have "origin_country_code row = country_code sc'"
      "port_code row = sp_port_code sp'" "us_state_code row = state_code sus'"
      "visa_category_code row = visa_category_id svc'"
      "travel_mode_code row = mode_id stm'" "fact_cicid row = cicid sid"
    by (simp_all add: col_def)
  with sid sc sp sus svc stm show ?thesis
    by blast
qed

lemma sample_fact_table:
  "create_immigration_fact_table
     [sample_immigration_row, sample_immigration_row\<lparr>i94addr := Some ''99''\<rparr>]
     sample_countries sample_states sample_ports sample_visas sample_travel_modes =
     [sample_fact_row]"
  by code_simp

text \<open>
  C2. Every row of the fact table has its origin-country, port, state, visa-category and
  travel-mode code non-null and present in the code book it was joined with, and these
  are the codes of one record of the immigration relation. The fact table is the
  concatenation of what each immigration record contributes, and a record one of whose
  five codes equals no code of its code book contributes no row. The builder returns a
  relation in every case and has no error to report.
\<close>

theorem create_immigration_fact_table_integrity:
  "(\<forall>row \<in> set (create_immigration_fact_table immigration_df countries_df us_states_df
        ports_df visa_categories_df travel_modes_df).
      origin_country_code row \<noteq> None \<and>
      origin_country_code row \<in> country_code ` set countries_df \<and>
      port_code row \<noteq> None \<and> port_code row \<in> sp_port_code ` set ports_df \<and>
      us_state_code row \<noteq> None \<and> us_state_code row \<in> state_code ` set us_states_df \<and>
      visa_category_code row \<noteq> None \<and>
      visa_category_code row \<in> visa_category_id ` set visa_categories_df \<and>
      travel_mode_code row \<noteq> None \<and> travel_mode_code row \<in> mode_id ` set travel_modes_df \<and>
      (\<exists>sid \<in> set immigration_df.
         origin_country_code row = i94res sid \<and> port_code row = i94port sid \<and>
         us_state_code row = i94addr sid \<and> visa_category_code row = i94visa sid \<and>
         travel_mode_code row = i94mode sid)) \<and>
   create_immigration_fact_table immigration_df countries_df us_states_df ports_df
       visa_categories_df travel_modes_df =
     concat (map (\<lambda>sid. create_immigration_fact_table [sid] countries_df us_states_df ports_df
       visa_categories_df travel_modes_df) immigration_df) \<and>
   ((\<forall>sc \<in> set countries_df. sql_eq (country_code sc) (i94res sid) \<noteq> Some True) \<or>
    (\<forall>sp \<in> set ports_df. sql_eq (sp_port_code sp) (i94port sid) \<noteq> Some True) \<or>
    (\<forall>sus \<in> set us_states_df. sql_eq (state_code sus) (i94addr sid) \<noteq> Some True) \<or>
    (\<forall>svc \<in> set visa_categories_df. sql_eq (visa_category_id svc) (i94visa sid) \<noteq> Some True) \<or>
    (\<forall>stm \<in> set travel_modes_df. sql_eq (mode_id stm) (i94mode sid) \<noteq> Some True) \<longrightarrow>
      create_immigration_fact_table [sid] countries_df us_states_df ports_df
        visa_categories_df travel_modes_df = [])"
proof (intro conjI ballI impI)
  fix row
  assume "row \<in> set (create_immigration_fact_table immigration_df countries_df us_states_df
        ports_df visa_categories_df travel_modes_df)"
  from fact_row_source [OF this] obtain sid sc sp sus svc stm where
    src: "sid \<in> set immigration_df" "sc \<in> set countries_df" "sp \<in> set ports_df"
      "sus \<in> set us_states_df" "svc \<in> set visa_categories_df" "stm \<in> set travel_modes_df"
    and eq: "country_code sc \<noteq> None" "country_code sc = i94res sid"
      "sp_port_code sp \<noteq> None" "sp_port_code sp = i94port sid"
      "state_code sus \<noteq> None" "state_code sus = i94addr sid"
      "visa_category_id svc \<noteq> None" "visa_category_id svc = i94visa sid"
      "mode_id stm \<noteq> None" "mode_id stm = i94mode sid"
    and row: "origin_country_code row = country_code sc" "port_code row = sp_port_code sp"
      "us_state_code row = state_code sus" "visa_category_code row = visa_category_id svc"
      "travel_mode_code row = mode_id stm"
    unfolding sql_eq_True_iff by blast
  from eq row show "origin_country_code row \<noteq> None" "port_code row \<noteq> None"
    "us_state_code row \<noteq> None" "visa_category_code row \<noteq> None" "travel_mode_code row \<noteq> None"
    by simp_all
  from src row show "origin_country_code row \<in> country_code ` set countries_df"
    "port_code row \<in> sp_port_code ` set ports_df"
    "us_state_code row \<in> state_code ` set us_states_df"
    "visa_category_code row \<in> visa_category_id ` set visa_categories_df"
    "travel_mode_code row \<in> mode_id ` set travel_modes_df"
    by simp_all
  from src(1) eq row show "\<exists>sid \<in> set immigration_df.
         origin_country_code row = i94res sid \<and> port_code row = i94port sid \<and>
         us_state_code row = i94addr sid \<and> visa_category_code row = i94visa sid \<and>
         travel_mode_code row = i94mode sid"
    by (intro bexI [of _ sid]) simp_all
next
  show "create_immigration_fact_table immigration_df countries_df us_states_df ports_df
       visa_categories_df travel_modes_df =
     concat (map (\<lambda>sid. create_immigration_fact_table [sid] countries_df us_states_df ports_df
       visa_categories_df travel_modes_df) immigration_df)"
    by (rule create_immigration_fact_table_concat)
next
  assume unresolved:
    "(\<forall>sc \<in> set countries_df. sql_eq (country_code sc) (i94res sid) \<noteq> Some True) \<or>
    (\<forall>sp \<in> set ports_df. sql_eq (sp_port_code sp) (i94port sid) \<noteq> Some True) \<or>
    (\<forall>sus \<in> set us_states_df. sql_eq (state_code sus) (i94addr sid) \<noteq> Some True) \<or>
    (\<forall>svc \<in> set visa_categories_df. sql_eq (visa_category_id svc) (i94visa sid) \<noteq> Some True) \<or>
    (\<forall>stm \<in> set travel_modes_df. sql_eq (mode_id stm) (i94mode sid) \<noteq> Some True)"
  show "create_immigration_fact_table [sid] countries_df us_states_df ports_df
        visa_categories_df travel_modes_df = []"
  proof (rule ccontr)
    assume "create_immigration_fact_table [sid] countries_df us_states_df ports_df
        visa_categories_df travel_modes_df \<noteq> []"
    then obtain row where "row \<in> set (create_immigration_fact_table [sid] countries_df
        us_states_df ports_df visa_categories_df travel_modes_df)"
      by (cases "create_immigration_fact_table [sid] countries_df
        us_states_df ports_df visa_categories_df travel_modes_df") auto
    from fact_row_source [OF this] unresolved show False
      by auto
  qed
qed

theorem create_immigration_fact_table_integrity_witness:
  "create_immigration_fact_table
     [sample_immigration_row, sample_immigration_row\<lparr>i94addr := Some ''99''\<rparr>]
     sample_countries sample_states sample_ports sample_visas sample_travel_modes =
     [sample_fact_row] \<and>
   us_state_code sample_fact_row \<in> state_code ` set sample_states \<and>
   create_immigration_fact_table [sample_immigration_row\<lparr>i94addr := Some ''99''\<rparr>]
     sample_countries sample_states sample_ports sample_visas sample_travel_modes = []"
proof -
  let ?df = "[sample_immigration_row, sample_immigration_row\<lparr>i94addr := Some ''99''\<rparr>]"
  note t = create_immigration_fact_table_integrity [of ?df sample_countries sample_states
      sample_ports sample_visas sample_travel_modes "sample_immigration_row\<lparr>i94addr := Some ''99''\<rparr>"]
  have "sample_fact_row \<in> set (create_immigration_fact_table ?df sample_countries sample_states
      sample_ports sample_visas sample_travel_modes)"
    by (simp add: sample_fact_table)
  with t have 1: "us_state_code sample_fact_row \<in> state_code ` set sample_states"
    by blast
  have "\<forall>sus \<in> set sample_states.
      sql_eq (state_code sus) (i94addr (sample_immigration_row\<lparr>i94addr := Some ''99''\<rparr>)) \<noteq>
        Some True"
    by (simp add: sample_states_def sql_eq_def)
  with t have 2: "create_immigration_fact_table [sample_immigration_row\<lparr>i94addr := Some ''99''\<rparr>]
     sample_countries sample_states sample_ports sample_visas sample_travel_modes = []"
    by blast
  from sample_fact_table 1 2 show ?thesis
    by blast
qed

section \<open>The city-demographics dimension: rows and sums\<close>



















end
